theory Spec2Isabelle
  imports Complex_Main "HOL-Library.Sublist"
begin

section \<open>JavaScript numbers\<close>

text \<open>
  A JavaScript number is a double. The model keeps the three non-finite values apart
  and writes a finite double as \<open>Num x\<close>, with \<open>x\<close> the real number it stands for.
  Sums and products are rounded to the nearest double (\<open>to_double\<close> below), as the
  machine does. The quotient is left unrounded: the only quotient formed below has an
  array length (below \<open>2 ^ 32\<close>) as numerator and an integer as denominator and goes
  straight into \<open>Math.ceil\<close>, and for those the ceiling of the rounded quotient is the
  ceiling of the exact one. The model has one zero; JavaScript's \<open>-0\<close> is not
  represented.
\<close>

datatype jsnum = Num real | PosInfinity | NegInfinity | NaN

subsection \<open>Rounding to a double\<close>

text \<open>
  Round to nearest, ties to even, with 53 significant bits, the smallest quantum
  \<open>2 ^ -1074\<close> of the subnormal numbers, and overflow to an infinity from
  \<open>2 ^ 1024 - 2 ^ 970\<close> on. \<open>bit_length n\<close> is the number of binary digits of \<open>n\<close>;
  \<open>ilog2 x\<close> is \<open>\<lfloor>log\<^sub>2 x\<rfloor>\<close> for \<open>x > 0\<close>; \<open>pow2 e\<close> is \<open>2\<close> to the power \<open>e\<close>.
\<close>

fun bit_length :: "nat \<Rightarrow> nat" where
  "bit_length n = (if n = 0 then 0 else Suc (bit_length (n div 2)))"

declare bit_length.simps [simp del]

definition pow2 :: "int \<Rightarrow> real" where
  "pow2 e = (if 0 \<le> e then 2 ^ nat e else 1 / 2 ^ nat (- e))"

definition ilog2 :: "real \<Rightarrow> int" where
  "ilog2 x =
     (if 1 \<le> x then int (bit_length (nat \<lfloor>x\<rfloor>)) - 1
      else - int (bit_length (nat (\<lceil>1 / x\<rceil> - 1))))"

definition round_half_even :: "real \<Rightarrow> int" where
  "round_half_even x =
     (let f = \<lfloor>x\<rfloor>; r = x - of_int f
      in if r < 1 / 2 then f else if 1 / 2 < r then f + 1 else if even f then f else f + 1)"

definition to_double :: "real \<Rightarrow> jsnum" where
  "to_double x =
     (if x = 0 then Num 0
      else
        let e = max (ilog2 \<bar>x\<bar> - 52) (- 1074);
            m = round_half_even (x / pow2 e)
        in if 971 < e \<or> (e = 971 \<and> \<bar>m\<bar> = 9007199254740992)
           then (if 0 < x then PosInfinity else NegInfinity)
           else Num (of_int m * pow2 e))"

subsection \<open>Arithmetic\<close>

text \<open>The operator \<open>/\<close> on numbers.\<close>

fun js_div :: "jsnum \<Rightarrow> jsnum \<Rightarrow> jsnum" where
  "js_div NaN _ = NaN"
| "js_div _ NaN = NaN"
| "js_div (Num x) (Num y) =
     (if y = 0 then (if x = 0 then NaN else if 0 < x then PosInfinity else NegInfinity)
      else Num (x / y))"
| "js_div (Num x) PosInfinity = Num 0"
| "js_div (Num x) NegInfinity = Num 0"
| "js_div PosInfinity (Num y) = (if 0 \<le> y then PosInfinity else NegInfinity)"
| "js_div NegInfinity (Num y) = (if 0 \<le> y then NegInfinity else PosInfinity)"
| "js_div PosInfinity _ = NaN"
| "js_div NegInfinity _ = NaN"

text \<open>The operator \<open>+\<close> on numbers.\<close>

fun js_add :: "jsnum \<Rightarrow> jsnum \<Rightarrow> jsnum" where
  "js_add NaN _ = NaN"
| "js_add _ NaN = NaN"
| "js_add (Num x) (Num y) = to_double (x + y)"
| "js_add (Num x) PosInfinity = PosInfinity"
| "js_add (Num x) NegInfinity = NegInfinity"
| "js_add PosInfinity NegInfinity = NaN"
| "js_add NegInfinity PosInfinity = NaN"
| "js_add PosInfinity _ = PosInfinity"
| "js_add NegInfinity _ = NegInfinity"

text \<open>The operator \<open>*\<close> on numbers.\<close>

fun js_mul :: "jsnum \<Rightarrow> jsnum \<Rightarrow> jsnum" where
  "js_mul NaN _ = NaN"
| "js_mul _ NaN = NaN"
| "js_mul (Num x) (Num y) = to_double (x * y)"
| "js_mul (Num x) PosInfinity =
     (if x = 0 then NaN else if 0 < x then PosInfinity else NegInfinity)"
| "js_mul (Num x) NegInfinity =
     (if x = 0 then NaN else if 0 < x then NegInfinity else PosInfinity)"
| "js_mul PosInfinity (Num y) =
     (if y = 0 then NaN else if 0 < y then PosInfinity else NegInfinity)"
| "js_mul NegInfinity (Num y) =
     (if y = 0 then NaN else if 0 < y then NegInfinity else PosInfinity)"
| "js_mul PosInfinity PosInfinity = PosInfinity"
| "js_mul PosInfinity NegInfinity = NegInfinity"
| "js_mul NegInfinity PosInfinity = NegInfinity"
| "js_mul NegInfinity NegInfinity = PosInfinity"

text \<open>\<open>Math.ceil\<close>.\<close>

fun js_ceil :: "jsnum \<Rightarrow> jsnum" where
  "js_ceil (Num x) = Num (of_int \<lceil>x\<rceil>)"
| "js_ceil v = v"

section \<open>The grid controller (\<open>VirtualGridInner\<close>)\<close>

text \<open>
  \<open>useResponsiveGrid\<close> is not part of the sources at hand; what it returns is taken as
  a parameter: an integer column count and finite pixel sizes.
\<close>

record geometry =
  columnCount :: int
  itemWidth :: real
  itemHeight :: real
  containerWidth :: real
  gap :: real

text \<open>\<open>const rowCount = Math.ceil(items.length / columnCount)\<close>\<close>

definition rowCount :: "'a list \<Rightarrow> int \<Rightarrow> jsnum" where
  "rowCount its cols = js_ceil (js_div (Num (real (length its))) (Num (real_of_int cols)))"

text \<open>
  \<open>height\<close> is a number (pixels) or a CSS string; its default is
  \<open>'calc(100vh - 280px)'\<close>. \<open>priorityCount\<close> defaults to 12. An omitted property is
  \<open>None\<close>.
\<close>

datatype height = HeightNumber real | HeightString string

definition default_height :: height where
  "default_height = HeightString ''calc(100vh - 280px)''"

definition default_priorityCount :: int where
  "default_priorityCount = 12"

record 'a VirtualGridProps =
  items :: "'a list"
  height_prop :: "height option"
  className_prop :: "string option"
  priorityCount_prop :: "int option"

definition height_of :: "('a, 'z) VirtualGridProps_scheme \<Rightarrow> height" where
  "height_of props = (case height_prop props of None \<Rightarrow> default_height | Some h \<Rightarrow> h)"

definition className_of :: "('a, 'z) VirtualGridProps_scheme \<Rightarrow> string" where
  "className_of props = (case className_prop props of None \<Rightarrow> [] | Some c \<Rightarrow> c)"

definition priorityCount_of :: "('a, 'z) VirtualGridProps_scheme \<Rightarrow> int" where
  "priorityCount_of props =
     (case priorityCount_prop props of None \<Rightarrow> default_priorityCount | Some k \<Rightarrow> k)"

text \<open>\<open>containerHeight\<close>: the height when it is a number, 600 otherwise.\<close>

definition containerHeight :: "height \<Rightarrow> real" where
  "containerHeight h = (case h of HeightNumber x \<Rightarrow> x | HeightString _ \<Rightarrow> 600)"

text \<open>\<open>gridWidth = columnCount * itemWidth + (columnCount - 1) * gap\<close>\<close>

definition gridWidth :: "'z geometry_scheme \<Rightarrow> real" where
  "gridWidth g =
     real_of_int (columnCount g) * itemWidth g + real_of_int (columnCount g - 1) * gap g"

subsection \<open>The cell component\<close>

text \<open>
  The style that the grid library hands to a cell. A property that the style does not
  have (\<open>undefined\<close>) is \<open>None\<close>; the properties that it has are numbers. \<open>Number\<close> turns
  \<open>undefined\<close> into \<open>NaN\<close> and leaves a number as it is. Whatever else the style holds
  (\<open>position\<close>, \<open>transform\<close>, ...) is carried along unchanged in the record's extension,
  as the spread \<open>...style\<close> does; \<open>positioned_style\<close> names two such properties.
\<close>

record style =
  left :: "jsnum option"
  top :: "jsnum option"
  width :: "jsnum option"
  height :: "jsnum option"
  padding :: "jsnum option"

record positioned_style = style +
  position :: string
  transform :: string

definition Number :: "jsnum option \<Rightarrow> jsnum" where
  "Number v = (case v of None \<Rightarrow> NaN | Some x \<Rightarrow> x)"

record 'z cell_props =
  columnIndex :: nat
  rowIndex :: nat
  cell_style :: "'z style_scheme"

text \<open>
  What a cell returns: a \<open>div\<close> with a style and at most one child, the result of
  \<open>renderItem\<close>.
\<close>

datatype ('z, 'r) element = Div "'z style_scheme" "'r option"

text \<open>\<open>items[index]\<close>: \<open>undefined\<close> (here \<open>None\<close>) outside the array.\<close>

definition item_at :: "'a list \<Rightarrow> int \<Rightarrow> 'a option" where
  "item_at xs i = (if 0 \<le> i \<and> i < int (length xs) then Some (xs ! nat i) else None)"

definition adjustedStyle :: "real \<Rightarrow> nat \<Rightarrow> nat \<Rightarrow> 'z style_scheme \<Rightarrow> 'z style_scheme" where
  "adjustedStyle gp col row st =
     st\<lparr>left := Some (js_add (Number (left st)) (js_mul (Num (real col)) (Num gp))),
        top := Some (js_add (Number (top st)) (js_mul (Num (real row)) (Num gp))),
        width := Some (Number (width st)),
        height := Some (Number (height st)),
        padding := Some (Num 0)\<rparr>"

text \<open>
  The function \<open>Cell\<close> closes over \<open>items\<close>, \<open>columnCount\<close>, \<open>priorityCount\<close>, \<open>gap\<close> and
  \<open>renderItem\<close>. To be able to say whether the caller's \<open>renderItem\<close> is invoked, it is
  modelled with an effect: it takes and returns a state \<open>'s\<close> of the caller's choosing
  (a call log, for instance), and \<open>Cell\<close> threads that state.
\<close>

type_synonym ('a, 'r, 's) renderItem = "'a option \<Rightarrow> bool \<Rightarrow> int \<Rightarrow> 's \<Rightarrow> 'r \<times> 's"

definition Cell ::
  "'a list \<Rightarrow> int \<Rightarrow> int \<Rightarrow> real \<Rightarrow> ('a, 'r, 's) renderItem \<Rightarrow> 'z cell_props \<Rightarrow> 's
     \<Rightarrow> ('z, 'r) element \<times> 's" where
  "Cell its cols prio gp renderItem props s =
     (let index = int (rowIndex props) * cols + int (columnIndex props) in
      if index \<ge> int (length its) then (Div (cell_style props) None, s)
      else
        let item = item_at its index;
            priority = (index < prio);
            st = adjustedStyle gp (columnIndex props) (rowIndex props) (cell_style props);
            (r, s') = renderItem item priority index s
        in (Div st (Some r), s'))"

text \<open>A \<open>renderItem\<close> that only records its arguments.\<close>

definition logging_renderItem :: "('a, unit, ('a option \<times> bool \<times> int) list) renderItem" where
  "logging_renderItem item priority index calls = ((), calls @ [(item, priority, index)])"

subsection \<open>What the component renders\<close>

text \<open>
  The grid element's properties. Its \<open>cellComponent\<close> is the function \<open>Cell\<close> above for
  the same items, column count, priority count, gap and \<open>renderItem\<close>; \<open>cellProps\<close> is
  empty.
\<close>

record grid_props =
  grid_columnCount :: int
  columnWidth :: real
  grid_rowCount :: jsnum
  rowHeight :: real
  defaultWidth :: real
  defaultHeight :: real
  overscanCount :: nat
  grid_style_height :: real
  grid_style_width :: real

text \<open>
  The three things the component can return: the empty-data notice, the container shown
  while the grid library is loading, and the container of the grid, which holds the grid
  only when \<open>containerWidth > 0\<close>. The notice's text is the UTF-8 encoding of the four
  characters U+6682 U+65E0 U+6570 U+636E.
\<close>

datatype view =
    EmptyNotice string height string
  | LoadingContainer string height
  | GridContainer string "height option" "grid_props option"

definition empty_notice_text :: string where
  "empty_notice_text =
     [CHR 0xE6, CHR 0x9A, CHR 0x82, CHR 0xE6, CHR 0x97, CHR 0xA0,
      CHR 0xE6, CHR 0x95, CHR 0xB0, CHR 0xE6, CHR 0x8D, CHR 0xAE]"

definition grid_of :: "'a list \<Rightarrow> height \<Rightarrow> 'z geometry_scheme \<Rightarrow> grid_props" where
  "grid_of its h g =
     \<lparr>grid_columnCount = columnCount g,
      columnWidth = itemWidth g,
      grid_rowCount = rowCount its (columnCount g),
      rowHeight = itemHeight g,
      defaultWidth = gridWidth g,
      defaultHeight = containerHeight h,
      overscanCount = 2,
      grid_style_height = containerHeight h,
      grid_style_width = gridWidth g\<rparr>"

text \<open>
  The return value of \<open>VirtualGridInner\<close>, from its properties, the loaded grid library
  (\<open>None\<close> while the import is pending) and the geometry of the container.
\<close>

definition VirtualGridInner ::
  "('a, 'y) VirtualGridProps_scheme \<Rightarrow> 'g option \<Rightarrow> 'z geometry_scheme \<Rightarrow> view" where
  "VirtualGridInner props GridComponent g =
     (let h = height_of props; cls = className_of props in
      if length (items props) = 0 then
        EmptyNotice (''flex items-center justify-center text-gray-500 dark:text-gray-400 '' @ cls)
          (case h of HeightNumber x \<Rightarrow> HeightNumber x | HeightString _ \<Rightarrow> HeightNumber 200)
          empty_notice_text
      else if GridComponent = None then
        LoadingContainer (''virtual-grid-container '' @ cls)
          (case h of HeightString t \<Rightarrow> HeightString t
                   | HeightNumber _ \<Rightarrow> HeightNumber (containerHeight h))
      else
        GridContainer (''virtual-grid-container '' @ cls)
          (case h of HeightString t \<Rightarrow> Some (HeightString t) | HeightNumber _ \<Rightarrow> None)
          (if containerWidth g > 0 then Some (grid_of (items props) h g) else None))"

definition is_grid :: "view \<Rightarrow> bool" where
  "is_grid v = (case v of GridContainer _ _ (Some _) \<Rightarrow> True | _ \<Rightarrow> False)"

text \<open>The cell component as the controller builds it (the \<open>useMemo\<close>).\<close>

definition cellComponent ::
  "('a, 'y) VirtualGridProps_scheme \<Rightarrow> 'x geometry_scheme \<Rightarrow> ('a, 'r, 's) renderItem
     \<Rightarrow> 'z cell_props \<Rightarrow> 's \<Rightarrow> ('z, 'r) element \<times> 's" where
  "cellComponent props g renderItem =
     Cell (items props) (columnCount g) (priorityCount_of props) (gap g) renderItem"

fun element_style :: "('z, 'r) element \<Rightarrow> 'z style_scheme" where
  "element_style (Div st _) = st"

fun element_child :: "('z, 'r) element \<Rightarrow> 'r option" where
  "element_child (Div _ c) = c"

text \<open>
  The items and the image addresses handed to the preload hook:
  \<open>items.map((item) => item.poster || '').filter(Boolean)\<close>. An absent field is \<open>None\<close>.
\<close>

record VirtualGridItem =
  item_id :: "string option"
  title :: "string option"
  poster :: "string option"
  year :: "string option"
  rate :: "string option"
  douban_id :: "int option"

definition imageUrls :: "'z VirtualGridItem_scheme list \<Rightarrow> string list" where
  "imageUrls its =
     filter (\<lambda>u. u \<noteq> []) (map (\<lambda>item. case poster item of None \<Rightarrow> [] | Some u \<Rightarrow> u) its)"

section \<open>The preload hook (\<open>useImagePreload\<close>)\<close>

text \<open>
  Strings are byte strings here. \<open>trim\<close> removes white space at both ends; of
  JavaScript's white space the model has the ASCII part (tab, line feed, vertical tab,
  form feed, carriage return, space).
\<close>

definition is_whitespace :: "char \<Rightarrow> bool" where
  "is_whitespace c = (c \<in> {CHR 0x09, CHR 0x0A, CHR 0x0B, CHR 0x0C, CHR 0x0D, CHR '' ''})"

definition trim :: "string \<Rightarrow> string" where
  "trim s = rev (dropWhile is_whitespace (rev (dropWhile is_whitespace s)))"

text \<open>
  \<open>xs.slice(0, e)\<close> for an integer \<open>e\<close>: a negative \<open>e\<close> counts from the end of the array.
\<close>

definition slice0 :: "'a list \<Rightarrow> int \<Rightarrow> 'a list" where
  "slice0 xs e = (if e < 0 then take (nat (int (length xs) + e)) xs else take (nat e) xs)"

definition DEFAULT_PRELOAD_COUNT :: int where
  "DEFAULT_PRELOAD_COUNT = 12"

text \<open>
  \<open>urls.slice(0, count).filter((url) => url && url.trim() !== '')\<close>, with the default of
  the parameter \<open>count\<close>.
\<close>

definition urlsToPreload :: "string list \<Rightarrow> int option \<Rightarrow> string list" where
  "urlsToPreload urls count =
     filter (\<lambda>url. url \<noteq> [] \<and> trim url \<noteq> [])
       (slice0 urls (case count of None \<Rightarrow> DEFAULT_PRELOAD_COUNT | Some c \<Rightarrow> c))"

text \<open>
  What the hook's own comment and the specification describe: the first \<open>count\<close> of
  the non-empty addresses. This definition follows those words, not the code.
\<close>

definition spec_first_nonempty :: "string list \<Rightarrow> int \<Rightarrow> string list" where
  "spec_first_nonempty urls count = take (nat count) (filter (\<lambda>url. url \<noteq> []) urls)"

text \<open>
  A \<open>link\<close> element: an identity (two elements created by two calls of
  \<open>createElement\<close> are different objects even when their attributes agree) and the
  attributes the hook sets. \<open>href\<close> is the content attribute, the string that was
  assigned.
\<close>

record link =
  link_id :: nat
  rel :: string
  link_as :: string
  href :: string
  crossOrigin :: string

text \<open>
  The document: the \<open>link\<close> children of \<open>document.head\<close> in order, and the \<open>link\<close>
  elements elsewhere in the document (\<open>querySelector\<close> searches the whole document).
\<close>

record document =
  head :: "link list"
  elsewhere :: "link list"

text \<open>
  The state shared by all instances: the document (\<open>None\<close> where \<open>document\<close> is
  undefined), the module-level set \<open>preloadedUrls\<close>, and the number of elements created
  so far, which gives the next element its identity. Each instance has its own
  \<open>addedLinksRef.current\<close>, a list of links.
\<close>

record world =
  document :: "document option"
  preloadedUrls :: "string set"
  created :: nat

text \<open>
  \<open>document.querySelector('link[rel="preload"][href="..."]')\<close> finds an element. The
  two attribute values are compared as they are written; that an HTML document compares
  the value of \<open>rel\<close> without regard to the case of ASCII letters is left out.
\<close>

definition has_preload_hint :: "document \<Rightarrow> string \<Rightarrow> bool" where
  "has_preload_hint d url =
     list_ex (\<lambda>l. rel l = ''preload'' \<and> href l = url) (head d @ elsewhere d)"

text \<open>
  The body of the \<open>forEach\<close> over the addresses to preload. The effect returns before the
  loop when there is no document, so the case \<open>None\<close> below is never reached from it.
\<close>

definition preload_one :: "string \<Rightarrow> world \<times> link list \<Rightarrow> world \<times> link list" where
  "preload_one url = (\<lambda>(w, added).
     if url \<in> preloadedUrls w then (w, added)
     else case document w of
       None \<Rightarrow> (w, added)
     | Some d \<Rightarrow>
         if has_preload_hint d url
         then (w\<lparr>preloadedUrls := insert url (preloadedUrls w)\<rparr>, added)
         else
           let l = \<lparr>link_id = created w, rel = ''preload'', link_as = ''image'', href = url,
                    crossOrigin = ''anonymous''\<rparr>
           in (w\<lparr>document := Some (d\<lparr>head := head d @ [l]\<rparr>),
                 preloadedUrls := insert url (preloadedUrls w),
                 created := Suc (created w)\<rparr>,
               added @ [l]))"

text \<open>The first effect of the hook, run after a render with these \<open>urls\<close> and \<open>count\<close>.\<close>

definition preload_effect ::
  "string list \<Rightarrow> int option \<Rightarrow> world \<times> link list \<Rightarrow> world \<times> link list" where
  "preload_effect urls count = (\<lambda>(w, added).
     if document w = None then (w, added)
     else if urls = [] then (w, added)
     else fold preload_one (urlsToPreload urls count) (w, added))"

text \<open>
  The clean-up on unmount. \<open>document.head.removeChild(link)\<close> throws when \<open>link\<close> is not a
  child of the head (or when there is no document); the \<open>catch\<close> swallows that, and the
  \<open>delete\<close> after it in the \<open>try\<close> block is then skipped. \<open>link.href\<close>, the property, is
  not the attribute: the browser returns the attribute's value resolved against the
  document's base address. That resolution is the parameter \<open>resolve\<close>.
\<close>

definition remove_one :: "(string \<Rightarrow> string) \<Rightarrow> link \<Rightarrow> world \<Rightarrow> world" where
  "remove_one resolve l w =
     (case document w of
        None \<Rightarrow> w
      | Some d \<Rightarrow>
          if l \<in> set (head d)
          then w\<lparr>document := Some (d\<lparr>head := remove1 l (head d)\<rparr>),
                 preloadedUrls := preloadedUrls w - {resolve (href l)}\<rparr>
          else w)"

definition preload_cleanup ::
  "(string \<Rightarrow> string) \<Rightarrow> world \<times> link list \<Rightarrow> world \<times> link list" where
  "preload_cleanup resolve = (\<lambda>(w, added). (fold (remove_one resolve) added w, []))"

section \<open>Merging the sites of a subscription (\<open>mergeTVBoxSites\<close>)\<close>

text \<open>
  \<open>name.replace(/[^a-zA-Z0-9]/g, '_').toLowerCase()\<close>. After the replacement only ASCII
  letters, digits and underscores are left, on which \<open>toLowerCase\<close> changes the letters
  \<open>A\<close> to \<open>Z\<close> only. The replacement is made per element of the string: a character
  outside ASCII is one or two code units in JavaScript and two to four bytes here, so the
  number of underscores it leaves differs.
\<close>

definition is_alnum :: "char \<Rightarrow> bool" where
  "is_alnum c =
     (let n = (of_char c :: nat)
      in (97 \<le> n \<and> n \<le> 122) \<or> (65 \<le> n \<and> n \<le> 90) \<or> (48 \<le> n \<and> n \<le> 57))"

definition toLowerCase_char :: "char \<Rightarrow> char" where
  "toLowerCase_char c =
     (let n = (of_char c :: nat) in if 65 \<le> n \<and> n \<le> 90 then char_of (n + 32) else c)"

definition sanitizeKey :: "string \<Rightarrow> string" where
  "sanitizeKey name =
     map toLowerCase_char (map (\<lambda>c. if is_alnum c then c else CHR ''_'') name)"

definition startsWith :: "string \<Rightarrow> string \<Rightarrow> bool" where
  "startsWith s p = prefix p s"

record TVBoxSite =
  site_key :: string
  site_name :: string
  site_type :: int
  site_api :: string
  searchable :: "int option"
  quickSearch :: "int option"
  filterable :: "int option"
  ext :: "string option"
  categories :: "string list option"

text \<open>
  The declaration of \<open>AdminConfig\<close> is not part of the sources at hand. An entry of
  \<open>SourceConfig\<close> has the fields that \<open>mergeTVBoxSites\<close> writes; the other fields of the
  configuration are the record's extension, which the copy \<open>{ ...adminConfig }\<close> keeps.
\<close>

record source =
  key :: string
  name :: string
  api :: string
  from_origin :: string
  disabled :: bool
  is_adult :: bool
  detail :: string

record AdminConfig =
  SourceConfig :: "source list"

definition tvbox_prefix :: "string \<Rightarrow> string" where
  "tvbox_prefix subscriptionName = ''tvbox_'' @ sanitizeKey subscriptionName @ ''_''"

definition mergeTVBoxSites ::
  "'z AdminConfig_scheme \<Rightarrow> 'y TVBoxSite_scheme list \<Rightarrow> string \<Rightarrow> 'z AdminConfig_scheme" where
  "mergeTVBoxSites adminConfig sites subscriptionName =
     (let safeName = sanitizeKey subscriptionName;
          kept = filter (\<lambda>s. \<not> startsWith (key s) (''tvbox_'' @ safeName @ ''_''))
                   (SourceConfig adminConfig);
          newSites = map (\<lambda>site.
                       \<lparr>key = ''tvbox_'' @ safeName @ ''_'' @ site_key site,
                        name = site_name site,
                        api = site_api site,
                        from_origin = ''tvbox'',
                        disabled = False,
                        is_adult = False,
                        detail = site_name site\<rparr>) sites
      in adminConfig\<lparr>SourceConfig := kept @ newSites\<rparr>)"

definition removeTVBoxSites :: "'z AdminConfig_scheme \<Rightarrow> string \<Rightarrow> 'z AdminConfig_scheme" where
  "removeTVBoxSites adminConfig subscriptionName =
     (let safeName = sanitizeKey subscriptionName
      in adminConfig\<lparr>SourceConfig :=
           filter (\<lambda>s. \<not> startsWith (key s) (''tvbox_'' @ safeName @ ''_''))
             (SourceConfig adminConfig)\<rparr>)"

section \<open>Doubles\<close>






section \<open>Row count\<close>

lemma rowCount_nonzero:
  "cols \<noteq> 0 \<Longrightarrow>
     rowCount its cols = Num (of_int \<lceil>real (length its) / real_of_int cols\<rceil>)"
  by (simp add: rowCount_def)

lemma rowCount_zero:
  "rowCount its 0 = (if its = [] then NaN else PosInfinity)"
  by (simp add: rowCount_def)

text \<open>
  The ceiling of a quotient of integers, in integer arithmetic: for a positive divisor,
  \<open>\<lceil>n / c\<rceil> = (n + c - 1) div c\<close>.
\<close>

lemma neg_div_neg_eq:
  fixes c n :: int
  assumes c: "0 < c" and n: "0 \<le> n"
  shows "- ((- n) div c) = (n + c - 1) div c"
proof -
  let ?m = "n mod c"
  have m: "0 \<le> ?m" "?m < c" using c by simp_all
  have "n + c - 1 = (?m + c - 1) + c * (n div c)" by (simp add: algebra_simps)
  then have "(n + c - 1) div c = ((?m + c - 1) + c * (n div c)) div c"
    by (rule arg_cong [of _ _ "\<lambda>x. x div c"])
  also have "\<dots> = (?m + c - 1) div c + n div c" using c by simp
  finally have split: "(n + c - 1) div c = (?m + c - 1) div c + n div c" .
  show ?thesis
  proof (cases "?m = 0")
    case True
    then have "(?m + c - 1) div c = 0" using c by (simp add: div_pos_pos_trivial)
    with split True c show ?thesis by (simp add: zdiv_zminus1_eq_if)
  next
    case False
    with m have "c \<le> ?m + c - 1" by simp
    then have "(?m + c - 1) div c = (?m + c - 1 - c) div c + 1"
      using c by (simp add: div_pos_geq)
    also have "(?m + c - 1 - c) div c = 0" using m False by (simp add: div_pos_pos_trivial)
    finally have "(?m + c - 1) div c = 1" by simp
    with split False c show ?thesis by (simp add: zdiv_zminus1_eq_if)
  qed
qed

lemma ceiling_quotient_div:
  "0 < c \<Longrightarrow> \<lceil>real n / real_of_int c\<rceil> = (int n + c - 1) div c"
proof -
  assume c: "0 < c"
  have "\<lceil>real n / real_of_int c\<rceil> = \<lceil>real_of_int (int n) / real_of_int c\<rceil>" by simp
  also have "\<dots> = - ((- int n) div c)" by (rule ceiling_divide_eq_div)
  also have "\<dots> = (int n + c - 1) div c" using c by (simp add: neg_div_neg_eq)
  finally show ?thesis .
qed

text \<open>
  Claim C5. For every item list (of any length \<open>n \<ge> 0\<close>) and every column count
  \<open>c \<ge> 1\<close>, the controller's \<open>rowCount\<close> is the number \<open>\<lceil>n / c\<rceil>\<close>; in integer
  arithmetic that is \<open>(n + c - 1) div c\<close>.
\<close>

theorem rowCount_is_ceiling:
  "1 \<le> cols \<Longrightarrow>
     rowCount its cols = Num (of_int \<lceil>real (length its) / real_of_int cols\<rceil>) \<and>
     \<lceil>real (length its) / real_of_int cols\<rceil> = (int (length its) + cols - 1) div cols"
  by (simp add: rowCount_nonzero ceiling_quotient_div)

theorem rowCount_is_ceiling_witness:
  "(1::int) \<le> 3 \<and> rowCount ''abcdefg'' 3 = Num 3"
  using rowCount_is_ceiling [of 3 "''abcdefg''"] by simp

text \<open>
  Claim C1, as stated: a column count of zero or less is clamped to 1 before the
  division, so that \<open>rowCount\<close> is what the clamped column count gives. The controller has
  no clamp: with five items and a column count of 0 the division by zero is carried out
  and gives \<open>Infinity\<close>, where the clamped column count would give 5.
\<close>

theorem rowCount_clamp_counterexample:
  "rowCount ''abcde'' 0 = PosInfinity \<and> rowCount ''abcde'' (max 1 0) = Num 5"
  by (simp add: rowCount_def)

text \<open>
  Claim C1, amended. The controller applies no clamp: it divides by the column count
  exactly as the layout hook supplies it. For every column count other than 0,
  \<open>rowCount\<close> is \<open>\<lceil>n / columnCount\<rceil>\<close>. When the column count is at least 1 that is a
  finite non-negative integer, the value a clamp to 1 would give. When it is negative
  the division is by that negative number and \<open>rowCount\<close> is an integer that is not
  positive. When it is 0 the division by zero is carried out: \<open>rowCount\<close> is \<open>Infinity\<close>,
  or \<open>NaN\<close> for an empty list. So for a list that is not empty, \<open>rowCount\<close> is what a
  clamp to 1 would give only when the supplied column count is at least 1.
\<close>

theorem rowCount_unclamped:
  "(cols \<noteq> 0 \<longrightarrow>
      rowCount its cols = Num (of_int \<lceil>real (length its) / real_of_int cols\<rceil>)) \<and>
   (1 \<le> cols \<longrightarrow>
      (\<exists>k\<ge>0. rowCount its cols = Num (of_int k)) \<and>
      rowCount its cols = rowCount its (max 1 cols)) \<and>
   (cols < 0 \<longrightarrow> (\<exists>k\<le>0. rowCount its cols = Num (of_int k))) \<and>
   (cols = 0 \<longrightarrow> rowCount its cols = (if its = [] then NaN else PosInfinity)) \<and>
   (its \<noteq> [] \<longrightarrow> (rowCount its cols = rowCount its (max 1 cols)) = (1 \<le> cols))"
proof -
  let ?n = "real (length its)"
  have nz: "cols \<noteq> 0 \<longrightarrow> rowCount its cols = Num (of_int \<lceil>?n / real_of_int cols\<rceil>)"
    by (simp add: rowCount_nonzero)
  have pos: "1 \<le> cols \<longrightarrow>
      (\<exists>k\<ge>0. rowCount its cols = Num (of_int k)) \<and>
      rowCount its cols = rowCount its (max 1 cols)"
  proof (intro impI conjI)
    assume c: "1 \<le> cols"
    have "0 \<le> ?n / real_of_int cols" using c by simp
    then have "0 \<le> \<lceil>?n / real_of_int cols\<rceil>"
      by (simp add: ceiling_le_iff[symmetric] le_ceiling_iff)
    moreover have "rowCount its cols = Num (of_int \<lceil>?n / real_of_int cols\<rceil>)"
      using c by (simp add: rowCount_nonzero)
    ultimately show "\<exists>k\<ge>0. rowCount its cols = Num (of_int k)" by blast
    show "rowCount its cols = rowCount its (max 1 cols)" using c by (simp add: max_def)
  qed
  have neg_ceiling: "\<lceil>?n / real_of_int cols\<rceil> \<le> 0" if "cols < 0"
  proof -
    have "?n / real_of_int cols \<le> 0" using that by (simp add: divide_nonneg_neg)
    then show ?thesis by (simp add: ceiling_le_iff)
  qed
  have neg: "cols < 0 \<longrightarrow> (\<exists>k\<le>0. rowCount its cols = Num (of_int k))"
  proof
    assume c: "cols < 0"
    have "rowCount its cols = Num (of_int \<lceil>?n / real_of_int cols\<rceil>)"
      using c by (simp add: rowCount_nonzero)
    with neg_ceiling [OF c] show "\<exists>k\<le>0. rowCount its cols = Num (of_int k)" by blast
  qed
  have zero: "cols = 0 \<longrightarrow> rowCount its cols = (if its = [] then NaN else PosInfinity)"
    by (simp add: rowCount_zero)
  have clamp: "its \<noteq> [] \<longrightarrow> (rowCount its cols = rowCount its (max 1 cols)) = (1 \<le> cols)"
  proof
    assume ne: "its \<noteq> []"
    have one: "rowCount its 1 = Num ?n" by (simp add: rowCount_nonzero)
    have npos: "0 < ?n" using ne by simp
    show "(rowCount its cols = rowCount its (max 1 cols)) = (1 \<le> cols)"
    proof (cases "1 \<le> cols")
      case True
      then show ?thesis by (simp add: max_def)
    next
      case False
      then have m: "max 1 cols = 1" by simp
      show ?thesis
      proof (cases "cols = 0")
        case True
        then show ?thesis using ne one by (simp add: rowCount_zero)
      next
        case nz': False
        with False have c: "cols < 0" by simp
        have "real_of_int \<lceil>?n / real_of_int cols\<rceil> \<le> 0" using neg_ceiling [OF c] by simp
        then have "real_of_int \<lceil>?n / real_of_int cols\<rceil> \<noteq> ?n" using npos by linarith
        then show ?thesis using False nz' one by (simp add: m rowCount_nonzero)
      qed
    qed
  qed
  from nz pos neg zero clamp show ?thesis by blast
qed

theorem rowCount_unclamped_witness:
  "rowCount ''abcdefg'' 3 = Num 3 \<and> rowCount ''abcde'' 0 = PosInfinity \<and>
   rowCount ''abcde'' (- 2) = Num (- 2) \<and>
   rowCount ''abcde'' (- 2) \<noteq> rowCount ''abcde'' (max 1 (- 2))"
  using rowCount_unclamped [of 3 "''abcdefg''"] rowCount_unclamped [of 0 "''abcde''"]
    rowCount_unclamped [of "- 2" "''abcde''"]
  by auto

section \<open>Cells\<close>

lemma Cell_outside:
  "int (length its) \<le> int (rowIndex props) * cols + int (columnIndex props) \<Longrightarrow>
     Cell its cols prio gp renderItem props s = (Div (cell_style props) None, s)"
  by (simp add: Cell_def)

lemma Cell_inside:
  "int (rowIndex props) * cols + int (columnIndex props) < int (length its) \<Longrightarrow>
     Cell its cols prio gp renderItem props s =
       (case renderItem (item_at its (int (rowIndex props) * cols + int (columnIndex props)))
               (int (rowIndex props) * cols + int (columnIndex props) < prio)
               (int (rowIndex props) * cols + int (columnIndex props)) s of
          (r, s') \<Rightarrow>
            (Div (adjustedStyle gp (columnIndex props) (rowIndex props) (cell_style props))
               (Some r), s'))"
  by (simp add: Cell_def Let_def)


text \<open>
  Claim C6. For a cell whose linear index \<open>rowIndex * columnCount + columnIndex\<close> is at
  least the number of items, the cell is a \<open>div\<close> without a child that carries the style
  it was given, so its width and height are those of the cell, and the state that
  \<open>renderItem\<close> could change is returned as it was, whatever \<open>renderItem\<close> is: it is not
  invoked.
\<close>

theorem placeholder_outside_items:
  "int (length (items p)) \<le> int (rowIndex props) * columnCount g + int (columnIndex props) \<Longrightarrow>
     cellComponent p g renderItem props s = (Div (cell_style props) None, s) \<and>
     width (element_style (fst (cellComponent p g renderItem props s))) = width (cell_style props) \<and>
     height (element_style (fst (cellComponent p g renderItem props s))) = height (cell_style props)"
  by (simp add: cellComponent_def Cell_outside)

theorem placeholder_outside_items_witness:
  "cellComponent
     \<lparr>items = ''abc'', height_prop = None, className_prop = None, priorityCount_prop = None\<rparr>
     \<lparr>columnCount = 2, itemWidth = 100, itemHeight = 150, containerWidth = 216, gap = 16\<rparr>
     logging_renderItem
     \<lparr>columnIndex = 1, rowIndex = 1,
      cell_style = \<lparr>left = Some (Num 0), top = None, width = Some (Num 100),
                    height = Some (Num 150), padding = None,
                    position = ''absolute'', transform = ''translate(100px, 150px)''\<rparr>\<rparr>
     [] =
   (Div \<lparr>left = Some (Num 0), top = None, width = Some (Num 100), height = Some (Num 150),
         padding = None, position = ''absolute'', transform = ''translate(100px, 150px)''\<rparr>
      None, [])"
  using placeholder_outside_items [of
     "\<lparr>items = ''abc'', height_prop = None, className_prop = None, priorityCount_prop = None\<rparr>"
     "\<lparr>columnIndex = 1, rowIndex = 1,
      cell_style = \<lparr>left = Some (Num 0), top = None, width = Some (Num 100),
                    height = Some (Num 150), padding = None,
                    position = ''absolute'', transform = ''translate(100px, 150px)''\<rparr>\<rparr>"
     "\<lparr>columnCount = 2, itemWidth = 100, itemHeight = 150, containerWidth = 216, gap = 16\<rparr>"
     logging_renderItem "[]"]
  by simp




text \<open>
  Claim C8. For a cell that holds the item at linear index \<open>i\<close>, the controller invokes
  \<open>renderItem\<close> with that item, with \<open>priority = (i < priorityCount)\<close> and with \<open>i\<close>, where
  \<open>priorityCount\<close> is the value the caller passed, or 12 when the property is omitted;
  and with 100 items in 5 columns \<open>rowCount\<close> is 20.
\<close>

theorem priority_flag:
  "(0 \<le> int row * columnCount g + int col \<and>
    int row * columnCount g + int col < int (length (items p)) \<longrightarrow>
      cellComponent p g renderItem \<lparr>columnIndex = col, rowIndex = row, cell_style = st\<rparr> s =
        (case renderItem (Some (items p ! nat (int row * columnCount g + int col)))
                (int row * columnCount g + int col < priorityCount_of p)
                (int row * columnCount g + int col) s of
           (r, s') \<Rightarrow> (Div (adjustedStyle (gap g) col row st) (Some r), s'))) \<and>
   (0 \<le> int row * columnCount g + int col \<and>
    int row * columnCount g + int col < int (length (items p)) \<longrightarrow>
      snd (cellComponent p g logging_renderItem
             \<lparr>columnIndex = col, rowIndex = row, cell_style = st\<rparr> calls) =
        calls @ [(Some (items p ! nat (int row * columnCount g + int col)),
                  int row * columnCount g + int col
                    < (case priorityCount_prop p of None \<Rightarrow> 12 | Some k \<Rightarrow> k),
                  int row * columnCount g + int col)]) \<and>
   (priorityCount_prop p = None \<longrightarrow> priorityCount_of p = 12) \<and>
   (priorityCount_prop p = Some k \<longrightarrow> priorityCount_of p = k) \<and>
   (length (items p) = 100 \<and> columnCount g = 5 \<longrightarrow>
      rowCount (items p) (columnCount g) = Num 20)"
  by (auto simp: cellComponent_def Cell_inside item_at_def priorityCount_of_def
                 default_priorityCount_def rowCount_def logging_renderItem_def
           split: option.splits)

theorem priority_flag_witness:
  "snd (cellComponent
     \<lparr>items = replicate 100 CHR ''x'', height_prop = None, className_prop = None,
      priorityCount_prop = None\<rparr>
     \<lparr>columnCount = 5, itemWidth = 100, itemHeight = 150, containerWidth = 564, gap = 16\<rparr>
     logging_renderItem
     \<lparr>columnIndex = 1, rowIndex = 2,
      cell_style = \<lparr>left = Some (Num 0), top = None, width = Some (Num 100),
                    height = Some (Num 150), padding = None\<rparr>\<rparr>
     []) = [(Some CHR ''x'', True, 11)] \<and>
   snd (cellComponent
     \<lparr>items = replicate 100 CHR ''x'', height_prop = None, className_prop = None,
      priorityCount_prop = Some 12\<rparr>
     \<lparr>columnCount = 5, itemWidth = 100, itemHeight = 150, containerWidth = 564, gap = 16\<rparr>
     logging_renderItem
     \<lparr>columnIndex = 2, rowIndex = 2,
      cell_style = \<lparr>left = Some (Num 0), top = None, width = Some (Num 100),
                    height = Some (Num 150), padding = None\<rparr>\<rparr>
     []) = [(Some CHR ''x'', False, 12)] \<and>
   snd (cellComponent
     \<lparr>items = replicate 100 CHR ''x'', height_prop = None, className_prop = None,
      priorityCount_prop = Some 3\<rparr>
     \<lparr>columnCount = 5, itemWidth = 100, itemHeight = 150, containerWidth = 564, gap = 16\<rparr>
     logging_renderItem
     \<lparr>columnIndex = 3, rowIndex = 0,
      cell_style = \<lparr>left = Some (Num 0), top = None, width = Some (Num 100),
                    height = Some (Num 150), padding = None\<rparr>\<rparr>
     []) = [(Some CHR ''x'', False, 3)] \<and>
   priorityCount_of \<lparr>items = replicate 100 CHR ''x'', height_prop = None,
      className_prop = None, priorityCount_prop = Some 3\<rparr> = 3 \<and>
   rowCount (replicate 100 CHR ''x'') 5 = Num 20"
proof -
  let ?g = "\<lparr>columnCount = 5, itemWidth = 100, itemHeight = 150, containerWidth = 564,
             gap = 16\<rparr>"
  let ?st = "\<lparr>left = Some (Num 0), top = None, width = Some (Num 100),
              height = Some (Num 150), padding = None\<rparr>"
  let ?p = "\<lambda>k. \<lparr>items = replicate 100 CHR ''x'', height_prop = None,
                 className_prop = None, priorityCount_prop = k\<rparr>"
  have A: "snd (cellComponent (?p None) ?g logging_renderItem
             \<lparr>columnIndex = 1, rowIndex = 2, cell_style = ?st\<rparr> [])
           = [(Some CHR ''x'', True, 11)]"
    using priority_flag [where row = 2 and col = 1 and g = ?g and p = "?p None"
        and st = ?st and calls = "[]" and renderItem = logging_renderItem and s = "[]"
        and k = 12]
    by (simp add: logging_renderItem_def)
  have B: "snd (cellComponent (?p (Some 12)) ?g logging_renderItem
             \<lparr>columnIndex = 2, rowIndex = 2, cell_style = ?st\<rparr> [])
           = [(Some CHR ''x'', False, 12)] \<and>
           rowCount (replicate 100 CHR ''x'') 5 = Num 20"
    using priority_flag [where row = 2 and col = 2 and g = ?g and p = "?p (Some 12)"
        and st = ?st and calls = "[]" and renderItem = logging_renderItem and s = "[]"
        and k = 12]
    by (simp add: logging_renderItem_def)
  have C: "snd (cellComponent (?p (Some 3)) ?g logging_renderItem
             \<lparr>columnIndex = 3, rowIndex = 0, cell_style = ?st\<rparr> [])
           = [(Some CHR ''x'', False, 3)] \<and>
           priorityCount_of (?p (Some 3)) = 3"
    using priority_flag [where row = 0 and col = 3 and g = ?g and p = "?p (Some 3)"
        and st = ?st and calls = "[]" and renderItem = logging_renderItem and s = "[]"
        and k = 3]
    by (simp add: logging_renderItem_def)
  from A B C show ?thesis by simp
qed

section \<open>The empty state\<close>

text \<open>
  Claim C9. With no items the component returns the empty-data notice with its literal
  text, and not a grid, whether or not the grid library has loaded and whatever the
  geometry of the container is: the test for an empty list comes first.
\<close>

theorem empty_items_notice:
  "items props = [] \<Longrightarrow>
     VirtualGridInner props GridComponent g =
       EmptyNotice
         (''flex items-center justify-center text-gray-500 dark:text-gray-400 ''
            @ className_of props)
         (case height_of props of
            HeightNumber x \<Rightarrow> HeightNumber x | HeightString _ \<Rightarrow> HeightNumber 200)
         empty_notice_text \<and>
     \<not> is_grid (VirtualGridInner props GridComponent g)"
  by (simp add: VirtualGridInner_def is_grid_def Let_def)

theorem empty_items_notice_witness:
  "VirtualGridInner
     \<lparr>items = ([] :: char list), height_prop = None, className_prop = Some ''mt-4'',
      priorityCount_prop = None\<rparr>
     (Some ())
     \<lparr>columnCount = 5, itemWidth = 100, itemHeight = 150, containerWidth = 564, gap = 16\<rparr>
   = EmptyNotice ''flex items-center justify-center text-gray-500 dark:text-gray-400 mt-4''
       (HeightNumber 200) empty_notice_text"
  using empty_items_notice [of
     "\<lparr>items = ([] :: char list), height_prop = None, className_prop = Some ''mt-4'',
      priorityCount_prop = None\<rparr>"
     "Some ()"
     "\<lparr>columnCount = 5, itemWidth = 100, itemHeight = 150, containerWidth = 564, gap = 16\<rparr>"]
  by (simp add: className_of_def height_of_def default_height_def)

section \<open>Preloading\<close>

text \<open>
  Where the list holds no blank address and the count is not negative, cutting first and
  filtering afterwards selects the same addresses as the first \<open>count\<close> non-empty ones.
\<close>

lemma urlsToPreload_without_blanks:
  assumes "\<forall>u \<in> set urls. u \<noteq> [] \<and> trim u \<noteq> []" and "0 \<le> c"
  shows "urlsToPreload urls (Some c) = spec_first_nonempty urls c"
proof -
  have "filter (\<lambda>url. url \<noteq> []) urls = urls"
    using assms(1) by (simp add: filter_id_conv)
  moreover have "filter (\<lambda>url. url \<noteq> [] \<and> trim url \<noteq> []) (take (nat c) urls)
                   = take (nat c) urls"
    using assms(1) by (auto simp: filter_id_conv dest: in_set_takeD)
  ultimately show ?thesis using assms(2)
    by (simp add: urlsToPreload_def spec_first_nonempty_def slice0_def)
qed

text \<open>
  Claim C3 says that the hook selects the first \<open>count\<close> non-empty addresses, and the
  hook's comment says the same. The code cuts the list to its first \<open>count\<close> elements and
  only then drops the blank ones, so an empty address among the first \<open>count\<close> takes the
  place of a later non-empty one: of \<open>['', 'a', 'b']\<close> with \<open>count = 2\<close> the code selects
  \<open>['a']\<close>, the first two non-empty addresses are \<open>['a', 'b']\<close>.
\<close>

theorem urlsToPreload_slices_first:
  "urlsToPreload ['''', ''a'', ''b''] (Some 2) = [''a''] \<and>
   spec_first_nonempty ['''', ''a'', ''b''] 2 = [''a'', ''b'']"
  by (simp add: urlsToPreload_def spec_first_nonempty_def slice0_def trim_def is_whitespace_def)

lemma has_preload_hint_append:
  "has_preload_hint (d\<lparr>head := head d @ [l]\<rparr>) v =
     (has_preload_hint d v \<or> (rel l = ''preload'' \<and> href l = v))"
  by (auto simp: has_preload_hint_def list_ex_iff)

lemma fold_preload_registered:
  "set us \<subseteq> preloadedUrls w \<Longrightarrow> fold preload_one us (w, added) = (w, added)"
  by (induction us) (auto simp: preload_one_def)

lemma preload_one_registered:
  "u \<in> preloadedUrls w \<Longrightarrow> preload_one u (w, added) = (w, added)"
  by (simp add: preload_one_def)

lemma preload_one_present:
  "u \<notin> preloadedUrls w \<Longrightarrow> document w = Some d \<Longrightarrow> has_preload_hint d u \<Longrightarrow>
     preload_one u (w, added) = (w\<lparr>preloadedUrls := insert u (preloadedUrls w)\<rparr>, added)"
  by (simp add: preload_one_def)

lemma preload_one_new:
  "u \<notin> preloadedUrls w \<Longrightarrow> document w = Some d \<Longrightarrow> \<not> has_preload_hint d u \<Longrightarrow>
     preload_one u (w, added) =
       (w\<lparr>document := Some (d\<lparr>head := head d @
              [\<lparr>link_id = created w, rel = ''preload'', link_as = ''image'', href = u,
                crossOrigin = ''anonymous''\<rparr>]\<rparr>),
          preloadedUrls := insert u (preloadedUrls w),
          created := Suc (created w)\<rparr>,
        added @ [\<lparr>link_id = created w, rel = ''preload'', link_as = ''image'', href = u,
                 crossOrigin = ''anonymous''\<rparr>])"
  by (simp add: preload_one_def Let_def)

lemma fold_preload_result:
  "document w = Some d \<Longrightarrow>
   \<exists>new. fold preload_one us (w, added) =
            (w\<lparr>document := Some (d\<lparr>head := head d @ new\<rparr>),
               preloadedUrls := preloadedUrls w \<union> set us,
               created := created w + length new\<rparr>, added @ new) \<and>
          distinct (map href new) \<and>
          set (map href new) = {u \<in> set us. u \<notin> preloadedUrls w \<and> \<not> has_preload_hint d u}"
proof (induction us arbitrary: w d added)
  case Nil
  then have "fold preload_one [] (w, added) =
      (w\<lparr>document := Some (d\<lparr>head := head d @ []\<rparr>),
         preloadedUrls := preloadedUrls w \<union> set [],
         created := created w + length ([]::link list)\<rparr>, added @ [])"
    by simp
  then show ?case by (intro exI [of _ "[]"]) simp
next
  case (Cons u us)
  note doc = \<open>document w = Some d\<close>
  show ?case
  proof (cases "u \<in> preloadedUrls w")
    case True
    from Cons.IH [OF doc, of added] obtain new where
      f: "fold preload_one us (w, added) =
            (w\<lparr>document := Some (d\<lparr>head := head d @ new\<rparr>),
               preloadedUrls := preloadedUrls w \<union> set us,
               created := created w + length new\<rparr>, added @ new)"
      and dn: "distinct (map href new)"
      and sn: "set (map href new) = {v \<in> set us. v \<notin> preloadedUrls w \<and> \<not> has_preload_hint d v}"
      by blast
    have e: "preloadedUrls w \<union> set (u # us) = preloadedUrls w \<union> set us" using True by auto
    have "fold preload_one (u # us) (w, added) = fold preload_one us (w, added)"
      using True by (simp add: preload_one_registered)
    with f e have "fold preload_one (u # us) (w, added) =
            (w\<lparr>document := Some (d\<lparr>head := head d @ new\<rparr>),
               preloadedUrls := preloadedUrls w \<union> set (u # us),
               created := created w + length new\<rparr>, added @ new)" by simp
    moreover have "set (map href new) = {v \<in> set (u # us). v \<notin> preloadedUrls w \<and> \<not> has_preload_hint d v}"
      using sn True by auto
    ultimately show ?thesis using dn by blast
  next
    case False
    show ?thesis
    proof (cases "has_preload_hint d u")
      case True
      let ?w1 = "w\<lparr>preloadedUrls := insert u (preloadedUrls w)\<rparr>"
      have doc1: "document ?w1 = Some d" using doc by simp
      from Cons.IH [OF doc1, of added] obtain new where
        f: "fold preload_one us (?w1, added) =
            (?w1\<lparr>document := Some (d\<lparr>head := head d @ new\<rparr>),
               preloadedUrls := preloadedUrls ?w1 \<union> set us,
               created := created ?w1 + length new\<rparr>, added @ new)"
        and dn: "distinct (map href new)"
        and sn: "set (map href new) = {v \<in> set us. v \<notin> preloadedUrls ?w1 \<and> \<not> has_preload_hint d v}"
        by blast
      have "fold preload_one (u # us) (w, added) = fold preload_one us (?w1, added)"
        using False True doc by (simp add: preload_one_present)
      with f have "fold preload_one (u # us) (w, added) =
            (w\<lparr>document := Some (d\<lparr>head := head d @ new\<rparr>),
               preloadedUrls := preloadedUrls w \<union> set (u # us),
               created := created w + length new\<rparr>, added @ new)" by simp
      moreover have "set (map href new) = {v \<in> set (u # us). v \<notin> preloadedUrls w \<and> \<not> has_preload_hint d v}"
        using sn True by auto
      ultimately show ?thesis using dn by blast
    next
      case nohint: False
      let ?l = "\<lparr>link_id = created w, rel = ''preload'', link_as = ''image'', href = u,
                crossOrigin = ''anonymous''\<rparr>"
      let ?d1 = "d\<lparr>head := head d @ [?l]\<rparr>"
      let ?w1 = "w\<lparr>document := Some ?d1, preloadedUrls := insert u (preloadedUrls w),
                   created := Suc (created w)\<rparr>"
      have doc1: "document ?w1 = Some ?d1" by simp
      from Cons.IH [OF doc1, of "added @ [?l]"] obtain new where
        f: "fold preload_one us (?w1, added @ [?l]) =
            (?w1\<lparr>document := Some (?d1\<lparr>head := head ?d1 @ new\<rparr>),
               preloadedUrls := preloadedUrls ?w1 \<union> set us,
               created := created ?w1 + length new\<rparr>, (added @ [?l]) @ new)"
        and dn: "distinct (map href new)"
        and sn: "set (map href new) = {v \<in> set us. v \<notin> preloadedUrls ?w1 \<and> \<not> has_preload_hint ?d1 v}"
        by blast
      have "fold preload_one (u # us) (w, added) = fold preload_one us (?w1, added @ [?l])"
        using False nohint doc by (simp add: preload_one_new)
      with f have "fold preload_one (u # us) (w, added) =
            (w\<lparr>document := Some (d\<lparr>head := head d @ (?l # new)\<rparr>),
               preloadedUrls := preloadedUrls w \<union> set (u # us),
               created := created w + length (?l # new)\<rparr>, added @ (?l # new))" by simp
      moreover have "set (map href (?l # new)) = {v \<in> set (u # us). v \<notin> preloadedUrls w \<and> \<not> has_preload_hint d v}"
        using sn False nohint by (auto simp: has_preload_hint_append)
      moreover have "distinct (map href (?l # new))"
        using dn sn by simp
      ultimately show ?thesis by blast
    qed
  qed
qed


text \<open>
  Claim C7. Where there is a document, running the effect a second time with the same
  addresses and count, from the same instance or from another one (\<open>added2\<close> is the
  list of the instance that runs it), changes nothing: no element is added, no list
  grows. The first run appends to the
  head one new element for each distinct candidate address that was neither in the
  registry nor present as a preload hint in the document, and for no other address; so
  when no candidate was registered or present, as many elements are issued as there are
  distinct candidates.
\<close>

theorem preload_idempotent:
  assumes doc: "document w = Some d"
  shows "preload_effect urls count (fst (preload_effect urls count (w, added)), added2)
           = (fst (preload_effect urls count (w, added)), added2) \<and>
         (\<exists>new. snd (preload_effect urls count (w, added)) = added @ new \<and>
                document (fst (preload_effect urls count (w, added)))
                  = Some (d\<lparr>head := head d @ new\<rparr>) \<and>
                distinct (map href new) \<and>
                set (map href new) =
                  {u \<in> set (urlsToPreload urls count).
                     u \<notin> preloadedUrls w \<and> \<not> has_preload_hint d u} \<and>
                length new =
                  card {u \<in> set (urlsToPreload urls count).
                     u \<notin> preloadedUrls w \<and> \<not> has_preload_hint d u} \<and>
                ((\<forall>u \<in> set (urlsToPreload urls count).
                     u \<notin> preloadedUrls w \<and> \<not> has_preload_hint d u) \<longrightarrow>
                   length new = card (set (urlsToPreload urls count))))"
proof (cases "urls = []")
  case True
  have "urlsToPreload [] count = []"
    by (simp add: urlsToPreload_def slice0_def)
  with True doc show ?thesis
    by (simp add: preload_effect_def)
next
  case False
  let ?us = "urlsToPreload urls count"
  let ?fresh = "{u \<in> set ?us. u \<notin> preloadedUrls w \<and> \<not> has_preload_hint d u}"
  from fold_preload_result [OF doc, of ?us added] obtain new where
    f: "fold preload_one ?us (w, added) =
          (w\<lparr>document := Some (d\<lparr>head := head d @ new\<rparr>),
             preloadedUrls := preloadedUrls w \<union> set ?us,
             created := created w + length new\<rparr>, added @ new)"
    and dn: "distinct (map href new)"
    and sn: "set (map href new) = ?fresh"
    by blast
  let ?w1 = "w\<lparr>document := Some (d\<lparr>head := head d @ new\<rparr>),
               preloadedUrls := preloadedUrls w \<union> set ?us,
               created := created w + length new\<rparr>"
  have e1: "preload_effect urls count (w, added) = (?w1, added @ new)"
    using False doc f by (simp add: preload_effect_def)
  have "fold preload_one ?us (?w1, added2) = (?w1, added2)"
    by (rule fold_preload_registered) simp
  then have e2: "preload_effect urls count (?w1, added2) = (?w1, added2)"
    using False by (simp add: preload_effect_def)
  have "length new = length (map href new)" by simp
  also have "\<dots> = card (set (map href new))" using dn by (simp only: distinct_card)
  finally have len: "length new = card ?fresh" using sn by simp
  have all: "(\<forall>u \<in> set ?us. u \<notin> preloadedUrls w \<and> \<not> has_preload_hint d u) \<longrightarrow>
               length new = card (set ?us)"
  proof
    assume "\<forall>u \<in> set ?us. u \<notin> preloadedUrls w \<and> \<not> has_preload_hint d u"
    then have "?fresh = set ?us" by blast
    with len show "length new = card (set ?us)" by simp
  qed
  have "snd (preload_effect urls count (w, added)) = added @ new"
    and "document (fst (preload_effect urls count (w, added)))
           = Some (d\<lparr>head := head d @ new\<rparr>)"
    by (simp_all add: e1)
  moreover have "preload_effect urls count (fst (preload_effect urls count (w, added)), added2)
           = (fst (preload_effect urls count (w, added)), added2)"
    using e2 by (simp add: e1)
  ultimately show ?thesis using dn sn len all by blast
qed

theorem preload_idempotent_witness:
  "preload_effect ['''', ''a'', ''b'', ''a''] (Some 4)
     (preload_effect ['''', ''a'', ''b'', ''a''] (Some 4)
        (\<lparr>document = Some \<lparr>head = [], elsewhere = []\<rparr>, preloadedUrls = {}, created = 0\<rparr>, []))
   = (\<lparr>document = Some \<lparr>head =
          [\<lparr>link_id = 0, rel = ''preload'', link_as = ''image'', href = ''a'',
            crossOrigin = ''anonymous''\<rparr>,
           \<lparr>link_id = 1, rel = ''preload'', link_as = ''image'', href = ''b'',
            crossOrigin = ''anonymous''\<rparr>], elsewhere = []\<rparr>,
       preloadedUrls = {''a'', ''b''}, created = 2\<rparr>,
      [\<lparr>link_id = 0, rel = ''preload'', link_as = ''image'', href = ''a'',
        crossOrigin = ''anonymous''\<rparr>,
       \<lparr>link_id = 1, rel = ''preload'', link_as = ''image'', href = ''b'',
        crossOrigin = ''anonymous''\<rparr>])"
proof -
  let ?w0 = "\<lparr>document = Some \<lparr>head = [], elsewhere = []\<rparr>, preloadedUrls = {}, created = 0\<rparr>"
  let ?urls = "['''', ''a'', ''b'', ''a'']"
  let ?l0 = "\<lparr>link_id = 0, rel = ''preload'', link_as = ''image'', href = ''a'',
              crossOrigin = ''anonymous''\<rparr>"
  let ?l1 = "\<lparr>link_id = 1, rel = ''preload'', link_as = ''image'', href = ''b'',
              crossOrigin = ''anonymous''\<rparr>"
  let ?w1 = "\<lparr>document = Some \<lparr>head = [?l0, ?l1], elsewhere = []\<rparr>,
              preloadedUrls = {''a'', ''b''}, created = 2\<rparr>"
  have once: "preload_effect ?urls (Some 4) (?w0, []) = (?w1, [?l0, ?l1])"
    by (simp add: preload_effect_def urlsToPreload_def slice0_def trim_def is_whitespace_def
                  preload_one_def has_preload_hint_def Let_def insert_commute)
  have "document ?w0 = Some \<lparr>head = [], elsewhere = []\<rparr>" by simp
  from preload_idempotent [OF this, of ?urls "Some 4" "[]" "[?l0, ?l1]"]
  have "preload_effect ?urls (Some 4) (fst (preload_effect ?urls (Some 4) (?w0, [])), [?l0, ?l1])
          = (fst (preload_effect ?urls (Some 4) (?w0, [])), [?l0, ?l1])" by (rule conjunct1)
  then have "preload_effect ?urls (Some 4) (?w1, [?l0, ?l1]) = (?w1, [?l0, ?l1])"
    by (simp only: once fst_conv)
  then show ?thesis by (simp only: once)
qed

text \<open>
  What the clean-up does to the document: of the children of the head it removes those in
  the instance's own list and no other. The links of another instance are different
  objects and stay.
\<close>

lemma fold_remove_one_head:
  "document w = Some d \<Longrightarrow> distinct (head d) \<Longrightarrow>
     \<exists>reg. fold (remove_one resolve) added w =
       w\<lparr>document := Some (d\<lparr>head := filter (\<lambda>l. l \<notin> set added) (head d)\<rparr>),
         preloadedUrls := reg\<rparr>"
proof (induction added arbitrary: w d)
  case Nil
  then have "fold (remove_one resolve) [] w =
       w\<lparr>document := Some (d\<lparr>head := filter (\<lambda>l. l \<notin> set []) (head d)\<rparr>),
         preloadedUrls := preloadedUrls w\<rparr>" by simp
  then show ?case by blast
next
  case (Cons l ls)
  show ?case
  proof (cases "l \<in> set (head d)")
    case True
    let ?d1 = "d\<lparr>head := remove1 l (head d)\<rparr>"
    let ?w1 = "w\<lparr>document := Some ?d1, preloadedUrls := preloadedUrls w - {resolve (href l)}\<rparr>"
    have r: "remove_one resolve l w = ?w1" using True Cons.prems by (simp add: remove_one_def)
    have "document ?w1 = Some ?d1" "distinct (head ?d1)" using Cons.prems by simp_all
    from Cons.IH [OF this] obtain reg where
      "fold (remove_one resolve) ls ?w1 =
         ?w1\<lparr>document := Some (?d1\<lparr>head := filter (\<lambda>x. x \<notin> set ls) (head ?d1)\<rparr>),
            preloadedUrls := reg\<rparr>" by blast
    moreover have "filter (\<lambda>x. x \<notin> set ls) (remove1 l (head d)) =
                   filter (\<lambda>x. x \<notin> set (l # ls)) (head d)"
      using Cons.prems(2) by (auto simp: distinct_remove1_removeAll removeAll_filter_not_eq intro: filter_cong)
    ultimately have "fold (remove_one resolve) (l # ls) w =
         w\<lparr>document := Some (d\<lparr>head := filter (\<lambda>x. x \<notin> set (l # ls)) (head d)\<rparr>),
            preloadedUrls := reg\<rparr>" using r by simp
    then show ?thesis by blast
  next
    case False
    have r: "remove_one resolve l w = w" using False Cons.prems by (simp add: remove_one_def)
    from Cons.IH [OF Cons.prems] obtain reg where
      "fold (remove_one resolve) ls w =
         w\<lparr>document := Some (d\<lparr>head := filter (\<lambda>x. x \<notin> set ls) (head d)\<rparr>),
            preloadedUrls := reg\<rparr>" by blast
    moreover have "filter (\<lambda>x. x \<notin> set ls) (head d) = filter (\<lambda>x. x \<notin> set (l # ls)) (head d)"
      using False by (auto intro: filter_cong)
    ultimately have "fold (remove_one resolve) (l # ls) w =
         w\<lparr>document := Some (d\<lparr>head := filter (\<lambda>x. x \<notin> set (l # ls)) (head d)\<rparr>),
            preloadedUrls := reg\<rparr>" using r by simp
    then show ?thesis by blast
  qed
qed

lemma cleanup_keeps_other_links:
  assumes "document w = Some d" and "distinct (head d)"
    and "l \<in> set (head d)" and "l \<notin> set added"
  shows "\<exists>d'. document (fst (preload_cleanup resolve (w, added))) = Some d' \<and>
              l \<in> set (head d') \<and> elsewhere d' = elsewhere d"
proof -
  from fold_remove_one_head [OF assms(1,2), of resolve added] obtain reg where
    "fold (remove_one resolve) added w =
       w\<lparr>document := Some (d\<lparr>head := filter (\<lambda>l. l \<notin> set added) (head d)\<rparr>),
         preloadedUrls := reg\<rparr>" by blast
  then show ?thesis using assms(3,4) by (simp add: preload_cleanup_def)
qed

text \<open>
  Claim C4 says that the clean-up removes from the registry exactly the addresses of the
  hints this instance added, so that another instance can hint them again. The code
  deletes \<open>link.href\<close>, the resolved address, and only after a successful \<open>removeChild\<close>.
  First run below: on a page at \<open>https://example.org\<close> an instance preloads \<open>/a.jpg\<close> and
  unmounts; the element is removed, the registry still holds \<open>/a.jpg\<close>, and a later
  instance that schedules \<open>/a.jpg\<close> issues no hint. Second run: the hint was taken out of
  the head by someone else before the unmount; the registry entry stays as well.
\<close>

theorem cleanup_leaves_registry_entry:
  "(let resolve = (\<lambda>u. if startsWith u ''/'' then ''https://example.org'' @ u else u);
        w0 = \<lparr>document = Some \<lparr>head = [], elsewhere = []\<rparr>, preloadedUrls = {}, created = 0\<rparr>;
        mounted = preload_effect [''/a.jpg''] None (w0, []);
        unmounted = preload_cleanup resolve mounted
    in preloadedUrls (fst mounted) = {''/a.jpg''} \<and>
       document (fst unmounted) = Some \<lparr>head = [], elsewhere = []\<rparr> \<and>
       preloadedUrls (fst unmounted) = {''/a.jpg''} \<and>
       preload_effect [''/a.jpg''] None (fst unmounted, []) = (fst unmounted, []))
   \<and>
   (let w0 = \<lparr>document = Some \<lparr>head = [], elsewhere = []\<rparr>, preloadedUrls = {}, created = 0\<rparr>;
        mounted = preload_effect [''https://example.org/a.jpg''] None (w0, []);
        w1 = (fst mounted)\<lparr>document := Some \<lparr>head = [], elsewhere = []\<rparr>\<rparr>;
        unmounted = preload_cleanup (\<lambda>u. u) (w1, snd mounted)
    in preloadedUrls (fst unmounted) = {''https://example.org/a.jpg''})"
  by (simp add: preload_effect_def urlsToPreload_def slice0_def trim_def is_whitespace_def
                preload_one_def has_preload_hint_def Let_def preload_cleanup_def remove_one_def
                startsWith_def DEFAULT_PRELOAD_COUNT_def)

section \<open>Merging sites\<close>

text \<open>
  Claim C10. Merging the same sites under the same subscription name a second time gives
  the configuration that merging once gives. The entries of \<open>SourceConfig\<close> whose key does
  not start with \<open>tvbox_\<close>, the sanitized name and \<open>_\<close> are, after the merge, the same
  entries in the same order as before, and they come first; the other fields of the
  configuration are unchanged.
\<close>

theorem mergeTVBoxSites_idempotent_frame:
  "mergeTVBoxSites (mergeTVBoxSites cfg sites nm) sites nm = mergeTVBoxSites cfg sites nm \<and>
   filter (\<lambda>s. \<not> startsWith (key s) (tvbox_prefix nm))
       (SourceConfig (mergeTVBoxSites cfg sites nm))
     = filter (\<lambda>s. \<not> startsWith (key s) (tvbox_prefix nm)) (SourceConfig cfg) \<and>
   prefix (filter (\<lambda>s. \<not> startsWith (key s) (tvbox_prefix nm)) (SourceConfig cfg))
     (SourceConfig (mergeTVBoxSites cfg sites nm)) \<and>
   AdminConfig.more (mergeTVBoxSites cfg sites nm) = AdminConfig.more cfg"
  by (simp add: mergeTVBoxSites_def tvbox_prefix_def Let_def startsWith_def filter_empty_conv
                o_def)

theorem mergeTVBoxSites_idempotent_frame_witness:
  "mergeTVBoxSites
     (mergeTVBoxSites
        \<lparr>SourceConfig =
           [\<lparr>key = ''site1'', name = ''One'', api = ''https://one.example/api'',
             from_origin = ''config'', disabled = False, is_adult = False, detail = ''One''\<rparr>,
            \<lparr>key = ''tvbox_my_sub_old'', name = ''Old'', api = ''https://old.example/api'',
             from_origin = ''tvbox'', disabled = False, is_adult = False, detail = ''Old''\<rparr>]\<rparr>
        [\<lparr>site_key = ''new'', site_name = ''New'', site_type = 1,
          site_api = ''https://new.example/api'', searchable = None, quickSearch = None,
          filterable = None, ext = None, categories = None\<rparr>]
        ''My Sub'')
     [\<lparr>site_key = ''new'', site_name = ''New'', site_type = 1,
       site_api = ''https://new.example/api'', searchable = None, quickSearch = None,
       filterable = None, ext = None, categories = None\<rparr>]
     ''My Sub''
   = \<lparr>SourceConfig =
        [\<lparr>key = ''site1'', name = ''One'', api = ''https://one.example/api'',
          from_origin = ''config'', disabled = False, is_adult = False, detail = ''One''\<rparr>,
         \<lparr>key = ''tvbox_my_sub_new'', name = ''New'', api = ''https://new.example/api'',
          from_origin = ''tvbox'', disabled = False, is_adult = False, detail = ''New''\<rparr>]\<rparr>"
proof -
  let ?cfg = "\<lparr>SourceConfig =
           [\<lparr>key = ''site1'', name = ''One'', api = ''https://one.example/api'',
             from_origin = ''config'', disabled = False, is_adult = False, detail = ''One''\<rparr>,
            \<lparr>key = ''tvbox_my_sub_old'', name = ''Old'', api = ''https://old.example/api'',
             from_origin = ''tvbox'', disabled = False, is_adult = False, detail = ''Old''\<rparr>]\<rparr>"
  let ?sites = "[\<lparr>site_key = ''new'', site_name = ''New'', site_type = 1,
          site_api = ''https://new.example/api'', searchable = None, quickSearch = None,
          filterable = None, ext = None, categories = None\<rparr>]"
  have once: "mergeTVBoxSites ?cfg ?sites ''My Sub''
     = \<lparr>SourceConfig =
        [\<lparr>key = ''site1'', name = ''One'', api = ''https://one.example/api'',
          from_origin = ''config'', disabled = False, is_adult = False, detail = ''One''\<rparr>,
         \<lparr>key = ''tvbox_my_sub_new'', name = ''New'', api = ''https://new.example/api'',
          from_origin = ''tvbox'', disabled = False, is_adult = False, detail = ''New''\<rparr>]\<rparr>"
    by code_simp
  from mergeTVBoxSites_idempotent_frame [of ?cfg ?sites "''My Sub''"]
  have "mergeTVBoxSites (mergeTVBoxSites ?cfg ?sites ''My Sub'') ?sites ''My Sub''
          = mergeTVBoxSites ?cfg ?sites ''My Sub''" by (rule conjunct1)
  then show ?thesis by (simp only: once)
qed

end
